theory Spec2Isabelle
  imports Main
begin

section \<open>The "account activate" command of the AGC command line\<close>

text \<open>
  A shallow embedding of \<^verbatim>\<open>packages/cli/internal/pkg/cli/account_activate.go\<close>.
  The command is a linear sequence of calls to collaborators (identity, storage,
  registry, deployment). Every collaborator is a function of the outside world \<open>'w\<close>
  that returns its result together with the new world, so no theorem relies on a
  collaborator answering the same way twice. Every call and every log line is
  appended to a trace, which is what the theorems speak about.
\<close>

subsection \<open>Data model\<close>

text \<open>Go's \<^verbatim>\<open>error\<close> values are opaque here; \<open>nil\<close> is \<open>None\<close> of \<open>error option\<close>,
  and a Go result pair \<^verbatim>\<open>(v, err)\<close> is a value of \<open>error + 'a\<close>.\<close>

datatype error = Error string

text \<open>\<^verbatim>\<open>ecr.ImageReference\<close>: the four fields that \<^verbatim>\<open>Execute\<close> reads.\<close>

record ImageReference =
  RegistryId :: string
  Region :: string
  ImageTag :: string
  RepositoryName :: string

text \<open>The zero value that a Go map lookup returns for a missing key.\<close>

definition zero_ImageReference :: ImageReference where
  "zero_ImageReference =
     \<lparr>RegistryId = [], Region = [], ImageTag = [], RepositoryName = []\<rparr>"

text \<open>\<^verbatim>\<open>cdk.ProgressEvent\<close>: the two fields that \<^verbatim>\<open>deployCoreInfrastructure\<close> reads.\<close>

record ProgressEvent =
  Outputs :: "string list"
  Err :: "error option"

text \<open>The zero value of \<^verbatim>\<open>var lastEvent cdk.ProgressEvent\<close>.\<close>

definition zero_ProgressEvent :: ProgressEvent where
  "zero_ProgressEvent = \<lparr>Outputs = [], Err = None\<rparr>"

text \<open>
  Modelled from the spec: \<^verbatim>\<open>cdk.ProgressStream\<close>, the channel type that
  \<^verbatim>\<open>DeployApp\<close> returns, is declared outside this file. The spec's data model
  describes the events as a finite sequence that is consumed once until it is closed;
  the list holds the events delivered before the channel is closed, in order.
\<close>

type_synonym ProgressStream = "ProgressEvent list"

text \<open>What the run does to the outside: collaborator calls with their results, and log lines.\<close>

datatype event =
    CallGetAccount "error + string"
  | CallBucketExists string "error + bool"
  | CallVerifyImageExists ImageReference "error option"
  | CallDetermineHomeDir "error + string"
  | CallDeployApp string "string list" "error + ProgressStream"
  | CallDisplayProgress ProgressStream string "error option"
  | LogError string
  | LogInfo string

record 'w run =
  world :: 'w
  trace :: "event list"

definition start :: "'w \<Rightarrow> 'w run" where
  "start w = \<lparr>world = w, trace = []\<rparr>"

text \<open>The collaborator interfaces, each with the one method this file calls.\<close>

record 'w sts_Interface =
  GetAccount :: "'w \<Rightarrow> (error + string) \<times> 'w"

record 'w s3_Interface =
  BucketExists :: "string \<Rightarrow> 'w \<Rightarrow> (error + bool) \<times> 'w"

record 'w ecr_Interface =
  VerifyImageExists :: "ImageReference \<Rightarrow> 'w \<Rightarrow> error option \<times> 'w"

record 'w cdk_Interface =
  DeployApp :: "string \<Rightarrow> string list \<Rightarrow> 'w \<Rightarrow> (error + ProgressStream) \<times> 'w"

record accountActivateVars =
  bucketName :: string
  vpcId :: string

text \<open>
  \<^verbatim>\<open>accountActivateOpts\<close> embeds \<^verbatim>\<open>accountActivateVars\<close>. The Go map
  \<^verbatim>\<open>imageRefs\<close> is an association list: its order is the order in which
  \<^verbatim>\<open>range\<close> visits the entries in this run (Go leaves it unspecified, so the
  theorems hold for every order), and a lookup takes the entry of the key.
\<close>

record 'w accountActivateOpts = accountActivateVars +
  stsClient :: "'w sts_Interface"
  s3Client :: "'w s3_Interface"
  cdkClient :: "'w cdk_Interface"
  ecrClient :: "'w ecr_Interface"
  imageRefs :: "(string \<times> ImageReference) list"
  region :: string

text \<open>
  What the file takes from other packages and from its own package outside this file:
  the verbosity flag \<^verbatim>\<open>logging.Verbose\<close>, \<^verbatim>\<open>DetermineHomeDir\<close>, the standard
  library's \<^verbatim>\<open>filepath.Join\<close>, the stream's \<^verbatim>\<open>DisplayProgress\<close> method, the
  image keys and the image table of package \<^verbatim>\<open>environment\<close>, the client constructors
  of package \<^verbatim>\<open>aws\<close> and \<^verbatim>\<open>cdk\<close> applied to the global profile, and
  \<^verbatim>\<open>clierror.New\<close>. They are parameters of the model.
\<close>

record 'w package_env =
  logging_Verbose :: bool
  DetermineHomeDir :: "'w \<Rightarrow> (error + string) \<times> 'w"
  filepath_Join :: "string \<Rightarrow> string \<Rightarrow> string"
  DisplayProgress :: "ProgressStream \<Rightarrow> string \<Rightarrow> 'w \<Rightarrow> error option \<times> 'w"
  environment_WesImageKey :: string
  environment_CromwellImageKey :: string
  environment_NextflowImageKey :: string
  environment_CommonImages :: "(string \<times> ImageReference) list"
  aws_StsClient :: "'w sts_Interface"
  aws_S3Client :: "'w s3_Interface"
  cdk_NewClient :: "'w cdk_Interface"
  aws_EcrClient :: "'w ecr_Interface"
  aws_Region :: string
  clierror_New :: "string \<Rightarrow> accountActivateVars \<Rightarrow> error \<Rightarrow> string \<Rightarrow> error"

subsection \<open>Constants\<close>

definition cdkCoreDir :: string where
  "cdkCoreDir = ''.agc/cdk/apps/core''"

definition bucketPrefix :: string where
  "bucketPrefix = ''agc''"

subsection \<open>Calls and log lines, recorded in the trace\<close>

definition record_event :: "event \<Rightarrow> 'w \<Rightarrow> 'w run \<Rightarrow> 'w run" where
  "record_event e w s = \<lparr>world = w, trace = trace s @ [e]\<rparr>"

definition call_GetAccount :: "'w sts_Interface \<Rightarrow> 'w run \<Rightarrow> (error + string) \<times> 'w run" where
  "call_GetAccount c s =
     (case GetAccount c (world s) of (r, w) \<Rightarrow> (r, record_event (CallGetAccount r) w s))"

definition call_BucketExists ::
  "'w s3_Interface \<Rightarrow> string \<Rightarrow> 'w run \<Rightarrow> (error + bool) \<times> 'w run" where
  "call_BucketExists c name s =
     (case BucketExists c name (world s) of
        (r, w) \<Rightarrow> (r, record_event (CallBucketExists name r) w s))"

definition call_VerifyImageExists ::
  "'w ecr_Interface \<Rightarrow> ImageReference \<Rightarrow> 'w run \<Rightarrow> error option \<times> 'w run" where
  "call_VerifyImageExists c imageRef s =
     (case VerifyImageExists c imageRef (world s) of
        (r, w) \<Rightarrow> (r, record_event (CallVerifyImageExists imageRef r) w s))"

definition call_DetermineHomeDir ::
  "'w package_env \<Rightarrow> 'w run \<Rightarrow> (error + string) \<times> 'w run" where
  "call_DetermineHomeDir g s =
     (case DetermineHomeDir g (world s) of
        (r, w) \<Rightarrow> (r, record_event (CallDetermineHomeDir r) w s))"

definition call_DeployApp ::
  "'w cdk_Interface \<Rightarrow> string \<Rightarrow> string list \<Rightarrow> 'w run
     \<Rightarrow> (error + ProgressStream) \<times> 'w run" where
  "call_DeployApp c path env s =
     (case DeployApp c path env (world s) of
        (r, w) \<Rightarrow> (r, record_event (CallDeployApp path env r) w s))"

definition call_DisplayProgress ::
  "'w package_env \<Rightarrow> ProgressStream \<Rightarrow> string \<Rightarrow> 'w run \<Rightarrow> error option \<times> 'w run" where
  "call_DisplayProgress g stream label s =
     (case DisplayProgress g stream label (world s) of
        (r, w) \<Rightarrow> (r, record_event (CallDisplayProgress stream label r) w s))"

definition log_Error :: "string \<Rightarrow> 'w run \<Rightarrow> 'w run" where
  "log_Error line s = record_event (LogError line) (world s) s"

definition log_Info :: "string \<Rightarrow> 'w run \<Rightarrow> 'w run" where
  "log_Info line s = record_event (LogInfo line) (world s) s"

subsection \<open>Formatting\<close>

text \<open>\<^verbatim>\<open>fmt.Sprintf\<close> with \<^verbatim>\<open>%t\<close>; with \<^verbatim>\<open>%s\<close> a string is itself.\<close>

definition fmt_bool :: "bool \<Rightarrow> string" where
  "fmt_bool b = (if b then ''true'' else ''false'')"

text \<open>\<^verbatim>\<open>o.imageRefs[key]\<close>: the entry of the key, or the zero value.\<close>

definition lookupImageRef :: "(string \<times> ImageReference) list \<Rightarrow> string \<Rightarrow> ImageReference" where
  "lookupImageRef refs key =
     (case map_of refs key of None \<Rightarrow> zero_ImageReference | Some r \<Rightarrow> r)"

text \<open>
  Modelled from the spec: \<^verbatim>\<open>generateBucketName\<close> is defined in the same package
  outside this file. The spec gives its fixed naming convention, prefix, account id
  and region joined by hyphens (\<^verbatim>\<open>agc-<accountId>-<region>\<close>).
\<close>

definition generateBucketName :: "string \<Rightarrow> string \<Rightarrow> string" where
  "generateBucketName account reg = bucketPrefix @ ''-'' @ account @ ''-'' @ reg"

subsection \<open>The operations\<close>

definition newAccountActivateOpts ::
  "'w package_env \<Rightarrow> accountActivateVars \<Rightarrow> error + 'w accountActivateOpts" where
  "newAccountActivateOpts g vars =
     Inr \<lparr>bucketName = bucketName vars, vpcId = vpcId vars,
          stsClient = aws_StsClient g, s3Client = aws_S3Client g,
          cdkClient = cdk_NewClient g, ecrClient = aws_EcrClient g,
          imageRefs = environment_CommonImages g, region = aws_Region g\<rparr>"

definition generateDefaultBucket ::
  "'w accountActivateOpts \<Rightarrow> 'w run \<Rightarrow> (error + string) \<times> 'w run" where
  "generateDefaultBucket opts s =
     (case call_GetAccount (stsClient opts) s of
        (Inl err, s1) \<Rightarrow> (Inl err, s1)
      | (Inr account, s1) \<Rightarrow> (Inr (generateBucketName account (region opts)), s1))"

text \<open>Lines 63 to 69 of \<^verbatim>\<open>Execute\<close>: the bucket name is filled in when it is empty.\<close>

definition Execute_bucketName ::
  "'w accountActivateOpts \<Rightarrow> 'w run \<Rightarrow> (error + 'w accountActivateOpts) \<times> 'w run" where
  "Execute_bucketName opts s =
     (if bucketName opts = [] then
        (case generateDefaultBucket opts s of
           (Inl err, s1) \<Rightarrow> (Inl err, s1)
         | (Inr name, s1) \<Rightarrow> (Inr (opts\<lparr>bucketName := name\<rparr>), s1))
      else (Inr opts, s))"

text \<open>Lines 76 to 80: the loop over the image references, left at the first error.\<close>

fun Execute_verify ::
  "'w ecr_Interface \<Rightarrow> ImageReference list \<Rightarrow> 'w run \<Rightarrow> error option \<times> 'w run" where
  "Execute_verify c [] s = (None, s)"
| "Execute_verify c (imageRef # rest) s =
     (case call_VerifyImageExists c imageRef s of
        (Some err, s1) \<Rightarrow> (Some err, s1)
      | (None, s1) \<Rightarrow> Execute_verify c rest s1)"

text \<open>Lines 82 to 103: the environment list.\<close>

definition environmentVars ::
  "'w package_env \<Rightarrow> 'w accountActivateOpts \<Rightarrow> bool \<Rightarrow> string list" where
  "environmentVars g opts exists =
     [''AGC_BUCKET_NAME='' @ bucketName opts,
      ''CREATE_AGC_BUCKET='' @ fmt_bool (\<not> exists),
      ''ECR_WES_ACCOUNT_ID='' @ RegistryId (lookupImageRef (imageRefs opts) (environment_WesImageKey g)),
      ''ECR_WES_REGION='' @ Region (lookupImageRef (imageRefs opts) (environment_WesImageKey g)),
      ''ECR_WES_TAG='' @ ImageTag (lookupImageRef (imageRefs opts) (environment_WesImageKey g)),
      ''ECR_WES_REPOSITORY='' @ RepositoryName (lookupImageRef (imageRefs opts) (environment_WesImageKey g)),
      ''ECR_CROMWELL_ACCOUNT_ID='' @ RegistryId (lookupImageRef (imageRefs opts) (environment_CromwellImageKey g)),
      ''ECR_CROMWELL_REGION='' @ Region (lookupImageRef (imageRefs opts) (environment_CromwellImageKey g)),
      ''ECR_CROMWELL_TAG='' @ ImageTag (lookupImageRef (imageRefs opts) (environment_CromwellImageKey g)),
      ''ECR_CROMWELL_REPOSITORY='' @ RepositoryName (lookupImageRef (imageRefs opts) (environment_CromwellImageKey g)),
      ''ECR_NEXTFLOW_ACCOUNT_ID='' @ RegistryId (lookupImageRef (imageRefs opts) (environment_NextflowImageKey g)),
      ''ECR_NEXTFLOW_REGION='' @ Region (lookupImageRef (imageRefs opts) (environment_NextflowImageKey g)),
      ''ECR_NEXTFLOW_TAG='' @ ImageTag (lookupImageRef (imageRefs opts) (environment_NextflowImageKey g)),
      ''ECR_NEXTFLOW_REPOSITORY='' @ RepositoryName (lookupImageRef (imageRefs opts) (environment_NextflowImageKey g))]
     @ (if vpcId opts \<noteq> [] then [''VPC_ID='' @ vpcId opts] else [])"

text \<open>Lines 131 to 133: the output lines of the last event, logged as errors.\<close>

fun logOutputs :: "string list \<Rightarrow> 'w run \<Rightarrow> 'w run" where
  "logOutputs [] s = s"
| "logOutputs (line # rest) s = logOutputs rest (log_Error line s)"

text \<open>Lines 128 to 137: the loop over the progress stream in verbose mode.\<close>

fun consumeVerbose :: "ProgressStream \<Rightarrow> ProgressEvent \<Rightarrow> 'w run \<Rightarrow> error option \<times> 'w run" where
  "consumeVerbose [] lastEvent s = (None, s)"
| "consumeVerbose (event # rest) lastEvent s =
     (case Err event of
        Some err \<Rightarrow> (Some err, logOutputs (Outputs lastEvent) s)
      | None \<Rightarrow> consumeVerbose rest event s)"

text \<open>Lines 127 to 141: what is done with the progress stream that \<^verbatim>\<open>DeployApp\<close> returned.\<close>

definition deployCoreInfrastructure_progress ::
  "'w package_env \<Rightarrow> ProgressStream \<Rightarrow> 'w run \<Rightarrow> error option \<times> 'w run" where
  "deployCoreInfrastructure_progress g progressStream s =
     (if logging_Verbose g
      then consumeVerbose progressStream zero_ProgressEvent s
      else call_DisplayProgress g progressStream ''Activating account...'' s)"

definition deployCoreInfrastructure ::
  "'w package_env \<Rightarrow> 'w accountActivateOpts \<Rightarrow> string list \<Rightarrow> 'w run
     \<Rightarrow> error option \<times> 'w run" where
  "deployCoreInfrastructure g opts envVars s =
     (case call_DetermineHomeDir g s of
        (Inl err, s1) \<Rightarrow> (Some err, s1)
      | (Inr homeDir, s1) \<Rightarrow>
          (case call_DeployApp (cdkClient opts) (filepath_Join g homeDir cdkCoreDir) envVars s1 of
             (Inl err, s2) \<Rightarrow> (Some err, s2)
           | (Inr progressStream, s2) \<Rightarrow> deployCoreInfrastructure_progress g progressStream s2))"

text \<open>
  \<^verbatim>\<open>Execute\<close> has a pointer receiver, so the options it leaves behind are part of
  the result.
\<close>

definition Execute ::
  "'w package_env \<Rightarrow> 'w accountActivateOpts \<Rightarrow> 'w run
     \<Rightarrow> error option \<times> 'w accountActivateOpts \<times> 'w run" where
  "Execute g opts s =
     (case Execute_bucketName opts s of
        (Inl err, s1) \<Rightarrow> (Some err, opts, s1)
      | (Inr opts1, s1) \<Rightarrow>
          (case call_BucketExists (s3Client opts1) (bucketName opts1) s1 of
             (Inl err, s2) \<Rightarrow> (Some err, opts1, s2)
           | (Inr exists, s2) \<Rightarrow>
               (case Execute_verify (ecrClient opts1) (map snd (imageRefs opts1)) s2 of
                  (Some err, s3) \<Rightarrow> (Some err, opts1, s3)
                | (None, s3) \<Rightarrow>
                    (case deployCoreInfrastructure g opts1 (environmentVars g opts1 exists) s3 of
                       (r, s4) \<Rightarrow> (r, opts1, s4)))))"

text \<open>The function that \<^verbatim>\<open>BuildAccountActivateCommand\<close> gives to \<^verbatim>\<open>runCmdE\<close>.\<close>

definition activate_hint :: string where
  "activate_hint =
     ''check you have valid aws credentials, check the custom bucket and VPC (if any) exist''"

text \<open>The line of \<^verbatim>\<open>log.Info().Msgf\<close>; the character \<open>0x27\<close> is the single quote.\<close>

definition activate_info :: "'w accountActivateOpts \<Rightarrow> string" where
  "activate_info opts =
     ''Activating AGC with bucket '' @ [CHR 0x27] @ bucketName opts @ [CHR 0x27]
       @ '' and VPC '' @ [CHR 0x27] @ vpcId opts @ [CHR 0x27]"

definition activate_RunE ::
  "'w package_env \<Rightarrow> accountActivateVars \<Rightarrow> 'w run \<Rightarrow> error option \<times> 'w run" where
  "activate_RunE g vars s =
     (case newAccountActivateOpts g vars of
        Inl err \<Rightarrow> (Some err, s)
      | Inr opts \<Rightarrow>
          (case Execute g opts (log_Info (activate_info opts) s) of
             (Some err, opts1, s1) \<Rightarrow>
               (Some (clierror_New g ''account activate'' vars err activate_hint), s1)
           | (None, opts1, s1) \<Rightarrow> (None, s1)))"

subsection \<open>Reading a run\<close>

text \<open>The error that \<^verbatim>\<open>Execute\<close> returns, the options it leaves, and the trace of the run.\<close>

definition Execute_result :: "'w package_env \<Rightarrow> 'w accountActivateOpts \<Rightarrow> 'w run \<Rightarrow> error option" where
  "Execute_result g opts s = fst (Execute g opts s)"

definition Execute_opts ::
  "'w package_env \<Rightarrow> 'w accountActivateOpts \<Rightarrow> 'w run \<Rightarrow> 'w accountActivateOpts" where
  "Execute_opts g opts s = fst (snd (Execute g opts s))"

definition Execute_trace :: "'w package_env \<Rightarrow> 'w accountActivateOpts \<Rightarrow> 'w run \<Rightarrow> event list" where
  "Execute_trace g opts s = trace (snd (snd (Execute g opts s)))"

text \<open>The key of a \<^verbatim>\<open>KEY=VALUE\<close> entry: what stands before the first equals sign.\<close>

definition env_key :: "string \<Rightarrow> string" where
  "env_key entry = takeWhile (\<lambda>c. c \<noteq> CHR ''='') entry"

fun is_DeployApp :: "event \<Rightarrow> bool" where
  "is_DeployApp (CallDeployApp path env r) = True"
| "is_DeployApp e = False"

fun is_BucketExists :: "event \<Rightarrow> bool" where
  "is_BucketExists (CallBucketExists name r) = True"
| "is_BucketExists e = False"

fun is_VerifyImageExists :: "event \<Rightarrow> bool" where
  "is_VerifyImageExists (CallVerifyImageExists imageRef r) = True"
| "is_VerifyImageExists e = False"

text \<open>The error of a failed identity lookup, bucket existence check or image verification.\<close>

fun collaborator_error :: "event \<Rightarrow> error option" where
  "collaborator_error (CallGetAccount (Inl err)) = Some err"
| "collaborator_error (CallBucketExists name (Inl err)) = Some err"
| "collaborator_error (CallVerifyImageExists imageRef (Some err)) = Some err"
| "collaborator_error e = None"

text \<open>The events of the progress block: error log lines and the summarized display call.\<close>

fun is_progress :: "event \<Rightarrow> bool" where
  "is_progress (LogError line) = True"
| "is_progress (CallDisplayProgress stream label r) = True"
| "is_progress e = False"

text \<open>Successful verifications of the given image references, in order.\<close>

definition verified :: "ImageReference list \<Rightarrow> event list" where
  "verified refs = map (\<lambda>imageRef. CallVerifyImageExists imageRef None) refs"

text \<open>
  How the bucket name was resolved, when lines 63 to 69 returned no error: \<open>w\<close> is
  the world before, \<open>opts'\<close> are the options after and \<open>evs\<close> the events of these lines.
\<close>

definition resolved ::
  "'w accountActivateOpts \<Rightarrow> 'w \<Rightarrow> 'w accountActivateOpts \<Rightarrow> event list \<Rightarrow> bool" where
  "resolved opts w opts' evs \<longleftrightarrow>
     (bucketName opts \<noteq> [] \<and> opts' = opts \<and> evs = [])
     \<or> (bucketName opts = [] \<and>
          (\<exists>account w1. GetAccount (stsClient opts) w = (Inr account, w1)
             \<and> opts' = opts\<lparr>bucketName := generateBucketName account (region opts)\<rparr>
             \<and> evs = [CallGetAccount (Inr account)]))"

subsection \<open>A concrete account, for running the model\<close>

text \<open>The world is the number of collaborator calls made so far.\<close>

definition demo_image :: "string \<Rightarrow> string \<Rightarrow> ImageReference" where
  "demo_image repo tag =
     \<lparr>RegistryId = ''111122223333'', Region = ''us-east-1'', ImageTag = tag, RepositoryName = repo\<rparr>"

definition demo_images :: "(string \<times> ImageReference) list" where
  "demo_images =
     [(''NEXTFLOW'', demo_image ''agc-nextflow'' ''21.04''),
      (''WES'', demo_image ''agc-wes'' ''0.1.0''),
      (''CROMWELL'', demo_image ''agc-cromwell'' ''64'')]"

definition demo_images_missing :: "(string \<times> ImageReference) list" where
  "demo_images_missing =
     [(''WES'', demo_image ''agc-wes'' ''0.1.0''),
      (''CROMWELL'', demo_image ''agc-cromwell'' ''missing''),
      (''NEXTFLOW'', demo_image ''agc-nextflow'' ''21.04'')]"

definition demo_sts :: "nat sts_Interface" where
  "demo_sts = \<lparr>GetAccount = (\<lambda>w. (Inr ''123456789012'', Suc w))\<rparr>"

definition demo_s3 :: "nat s3_Interface" where
  "demo_s3 = \<lparr>BucketExists = (\<lambda>name w. (Inr (name = ''my-bucket''), Suc w))\<rparr>"

definition demo_ecr :: "nat ecr_Interface" where
  "demo_ecr =
     \<lparr>VerifyImageExists =
        (\<lambda>imageRef w. (if ImageTag imageRef = ''missing''
                        then Some (Error ''image not found'') else None, Suc w))\<rparr>"

definition demo_cdk :: "ProgressStream \<Rightarrow> nat cdk_Interface" where
  "demo_cdk stream = \<lparr>DeployApp = (\<lambda>path env w. (Inr stream, Suc w))\<rparr>"

definition demo_stream_ok :: ProgressStream where
  "demo_stream_ok =
     [\<lparr>Outputs = [''creating stack''], Err = None\<rparr>,
      \<lparr>Outputs = [''creating stack'', ''stack created''], Err = None\<rparr>]"

definition demo_stream_failed :: ProgressStream where
  "demo_stream_failed =
     [\<lparr>Outputs = [''creating stack''], Err = None\<rparr>,
      \<lparr>Outputs = [''creating stack'', ''rolling back''], Err = None\<rparr>,
      \<lparr>Outputs = [], Err = Some (Error ''deployment failed'')\<rparr>,
      \<lparr>Outputs = [''late''], Err = None\<rparr>]"

definition demo_env :: "bool \<Rightarrow> (error + string) \<Rightarrow> ProgressStream \<Rightarrow> nat package_env" where
  "demo_env verbose home stream =
     \<lparr>logging_Verbose = verbose,
      DetermineHomeDir = (\<lambda>w. (home, Suc w)),
      filepath_Join = (\<lambda>dir sub. dir @ ''/'' @ sub),
      DisplayProgress = (\<lambda>stream label w. (None, Suc w)),
      environment_WesImageKey = ''WES'',
      environment_CromwellImageKey = ''CROMWELL'',
      environment_NextflowImageKey = ''NEXTFLOW'',
      environment_CommonImages = demo_images,
      aws_StsClient = demo_sts,
      aws_S3Client = demo_s3,
      cdk_NewClient = demo_cdk stream,
      aws_EcrClient = demo_ecr,
      aws_Region = ''us-east-1'',
      clierror_New = (\<lambda>command vars err hint. Error (command @ '': '' @ hint))\<rparr>"

definition demo_opts ::
  "string \<Rightarrow> string \<Rightarrow> (string \<times> ImageReference) list \<Rightarrow> ProgressStream
     \<Rightarrow> nat accountActivateOpts" where
  "demo_opts bucket vpc images stream =
     \<lparr>bucketName = bucket, vpcId = vpc,
      stsClient = demo_sts, s3Client = demo_s3, cdkClient = demo_cdk stream,
      ecrClient = demo_ecr, imageRefs = images, region = ''us-east-1''\<rparr>"

section \<open>The shape of a run\<close>

lemma record_event_simps [simp]:
  "trace (record_event e w s) = trace s @ [e]" "world (record_event e w s) = w"
  by (simp_all add: record_event_def)

lemma Execute_verify_None:
  "Execute_verify c refs s = (None, s') \<Longrightarrow> trace s' = trace s @ verified refs"
  by (induction refs arbitrary: s)
     (auto simp: call_VerifyImageExists_def verified_def split: prod.splits option.splits)

lemma Execute_verify_Some:
  "Execute_verify c refs s = (Some err, s') \<Longrightarrow>
     \<exists>pre r post. refs = pre @ r # post \<and>
       trace s' = trace s @ verified pre @ [CallVerifyImageExists r (Some err)]"
proof (induction refs arbitrary: s)
  case Nil
  then show ?case by simp
next
  case (Cons a refs)
  obtain r w where c: "VerifyImageExists c a (world s) = (r, w)"
    by (cases "VerifyImageExists c a (world s)")
  show ?case
  proof (cases r)
    case None
    with c Cons.prems
    have "Execute_verify c refs (record_event (CallVerifyImageExists a None) w s) = (Some err, s')"
      by (simp add: call_VerifyImageExists_def)
    from Cons.IH[OF this] obtain pre r' post where
      "refs = pre @ r' # post"
      "trace s' = trace s @ [CallVerifyImageExists a None] @ verified pre
                    @ [CallVerifyImageExists r' (Some err)]"
      by auto
    then have "a # refs = (a # pre) @ r' # post \<and>
               trace s' = trace s @ verified (a # pre) @ [CallVerifyImageExists r' (Some err)]"
      by (simp add: verified_def)
    then show ?thesis by blast
  next
    case (Some e)
    with c Cons.prems
    have "e = err" "s' = record_event (CallVerifyImageExists a (Some err)) w s"
      by (auto simp: call_VerifyImageExists_def)
    then have "a # refs = [] @ a # refs \<and>
               trace s' = trace s @ verified [] @ [CallVerifyImageExists a (Some err)]"
      by (simp add: verified_def)
    then show ?thesis by blast
  qed
qed

lemma logOutputs_trace: "trace (logOutputs ls s) = trace s @ map LogError ls"
  by (induction ls arbitrary: s) (simp_all add: log_Error_def)

lemma logOutputs_world: "world (logOutputs ls s) = world s"
  by (induction ls arbitrary: s) (simp_all add: log_Error_def)

lemma consumeVerbose_no_error:
  "\<forall>e\<in>set stream. Err e = None \<Longrightarrow> consumeVerbose stream lastEvent s = (None, s)"
  by (induction stream arbitrary: lastEvent) simp_all

lemma consumeVerbose_error:
  "\<forall>e\<in>set pre. Err e = None \<Longrightarrow> Err ev = Some err \<Longrightarrow>
     consumeVerbose (pre @ ev # post) lastEvent s
       = (Some err, logOutputs (Outputs (last (lastEvent # pre))) s)"
  by (induction pre arbitrary: lastEvent) simp_all

lemma consumeVerbose_trace:
  "consumeVerbose stream lastEvent s = (r, s') \<Longrightarrow>
     \<exists>ls. trace s' = trace s @ map LogError ls"
proof (induction stream arbitrary: lastEvent)
  case Nil
  then have "trace s' = trace s @ map LogError []" by simp
  then show ?case by blast
next
  case (Cons ev stream)
  then show ?case
    by (cases "Err ev") (auto simp: logOutputs_trace)
qed

lemma progress_trace:
  assumes "deployCoreInfrastructure_progress g stream s = (r, s')"
  shows "\<exists>evs. trace s' = trace s @ evs \<and> (\<forall>e\<in>set evs. is_progress e)"
proof (cases "logging_Verbose g")
  case True
  with assms have "consumeVerbose stream zero_ProgressEvent s = (r, s')"
    by (simp add: deployCoreInfrastructure_progress_def)
  from consumeVerbose_trace[OF this] obtain ls where "trace s' = trace s @ map LogError ls" ..
  moreover have "\<forall>e\<in>set (map LogError ls). is_progress e" by auto
  ultimately show ?thesis by blast
next
  case False
  with assms have "trace s' = trace s @ [CallDisplayProgress stream ''Activating account...'' r]"
    by (auto simp: deployCoreInfrastructure_progress_def call_DisplayProgress_def
             split: prod.splits)
  moreover have "\<forall>e\<in>set [CallDisplayProgress stream ''Activating account...'' r]. is_progress e"
    by simp
  ultimately show ?thesis by blast
qed

lemma deployCoreInfrastructure_cases:
  assumes "deployCoreInfrastructure g opts envVars s = (r, s')"
  obtains
    (home_failed) err where
      "r = Some err" "trace s' = trace s @ [CallDetermineHomeDir (Inl err)]"
  | (deploy_failed) home err where
      "r = Some err"
      "trace s' = trace s @ [CallDetermineHomeDir (Inr home),
          CallDeployApp (filepath_Join g home cdkCoreDir) envVars (Inl err)]"
  | (deployed) home stream evs where
      "trace s' = trace s @ [CallDetermineHomeDir (Inr home),
          CallDeployApp (filepath_Join g home cdkCoreDir) envVars (Inr stream)] @ evs"
      "\<forall>e\<in>set evs. is_progress e"
proof -
  obtain h w1 where h: "DetermineHomeDir g (world s) = (h, w1)"
    by (cases "DetermineHomeDir g (world s)")
  show ?thesis
  proof (cases h)
    case (Inl err)
    with h assms have "r = Some err" "trace s' = trace s @ [CallDetermineHomeDir (Inl err)]"
      by (auto simp: deployCoreInfrastructure_def call_DetermineHomeDir_def)
    then show ?thesis by (rule home_failed)
  next
    case (Inr home)
    obtain d w2 where d: "DeployApp (cdkClient opts) (filepath_Join g home cdkCoreDir) envVars w1 = (d, w2)"
      by (cases "DeployApp (cdkClient opts) (filepath_Join g home cdkCoreDir) envVars w1")
    show ?thesis
    proof (cases d)
      case (Inl err)
      with h d Inr assms have "r = Some err"
        "trace s' = trace s @ [CallDetermineHomeDir (Inr home),
          CallDeployApp (filepath_Join g home cdkCoreDir) envVars (Inl err)]"
        by (auto simp: deployCoreInfrastructure_def call_DetermineHomeDir_def call_DeployApp_def)
      then show ?thesis by (rule deploy_failed)
    next
      case str: (Inr stream)
      define s2 where "s2 = record_event (CallDeployApp (filepath_Join g home cdkCoreDir) envVars (Inr stream)) w2
           (record_event (CallDetermineHomeDir (Inr home)) w1 s)"
      from h d Inr str assms have "deployCoreInfrastructure_progress g stream s2 = (r, s')"
        by (simp add: deployCoreInfrastructure_def call_DetermineHomeDir_def call_DeployApp_def s2_def)
      from progress_trace[OF this] obtain evs where
        "trace s' = trace s2 @ evs" "\<forall>e\<in>set evs. is_progress e" by blast
      then have "trace s' = trace s @ [CallDetermineHomeDir (Inr home),
          CallDeployApp (filepath_Join g home cdkCoreDir) envVars (Inr stream)] @ evs"
        "\<forall>e\<in>set evs. is_progress e"
        by (simp_all add: s2_def)
      then show ?thesis by (rule deployed)
    qed
  qed
qed

lemma Execute_bucketName_cases:
  assumes "Execute_bucketName opts s = (x, s1)"
  obtains
    (identity_failed) err where
      "bucketName opts = []" "x = Inl err" "fst (GetAccount (stsClient opts) (world s)) = Inl err"
      "trace s1 = trace s @ [CallGetAccount (Inl err)]"
  | (resolved) opts1 evs where
      "x = Inr opts1" "resolved opts (world s) opts1 evs" "trace s1 = trace s @ evs"
proof (cases "bucketName opts = []")
  case False
  with assms have "x = Inr opts" "resolved opts (world s) opts []" "trace s1 = trace s @ []"
    by (auto simp: Execute_bucketName_def resolved_def)
  then show ?thesis by (rule resolved)
next
  case True
  obtain a w1 where a: "GetAccount (stsClient opts) (world s) = (a, w1)"
    by (cases "GetAccount (stsClient opts) (world s)")
  show ?thesis
  proof (cases a)
    case (Inl err)
    with a True assms have "x = Inl err" "fst (GetAccount (stsClient opts) (world s)) = Inl err"
      "trace s1 = trace s @ [CallGetAccount (Inl err)]"
      by (auto simp: Execute_bucketName_def generateDefaultBucket_def call_GetAccount_def)
    with True show ?thesis by (rule identity_failed)
  next
    case (Inr account)
    with a True assms
    have "x = Inr (opts\<lparr>bucketName := generateBucketName account (region opts)\<rparr>)"
      "trace s1 = trace s @ [CallGetAccount (Inr account)]"
      by (auto simp: Execute_bucketName_def generateDefaultBucket_def call_GetAccount_def)
    moreover have "resolved opts (world s)
                     (opts\<lparr>bucketName := generateBucketName account (region opts)\<rparr>)
                     [CallGetAccount (Inr account)]"
      using True a Inr by (auto simp: resolved_def)
    ultimately show ?thesis using resolved by blast
  qed
qed

lemma Execute_cases:
  assumes "Execute g opts s = (r, opts', s')"
  obtains
    (identity_failed) err where
      "bucketName opts = []" "r = Some err" "opts' = opts"
      "fst (GetAccount (stsClient opts) (world s)) = Inl err"
      "trace s' = trace s @ [CallGetAccount (Inl err)]"
  | (bucket_failed) evs err where
      "resolved opts (world s) opts' evs" "r = Some err"
      "trace s' = trace s @ evs @ [CallBucketExists (bucketName opts') (Inl err)]"
  | (image_failed) evs exists pre imageRef post err where
      "resolved opts (world s) opts' evs" "r = Some err"
      "map snd (imageRefs opts) = pre @ imageRef # post"
      "trace s' = trace s @ evs @ [CallBucketExists (bucketName opts') (Inr exists)]
                   @ verified pre @ [CallVerifyImageExists imageRef (Some err)]"
  | (home_failed) evs exists err where
      "resolved opts (world s) opts' evs" "r = Some err"
      "trace s' = trace s @ evs @ [CallBucketExists (bucketName opts') (Inr exists)]
                   @ verified (map snd (imageRefs opts)) @ [CallDetermineHomeDir (Inl err)]"
  | (deploy_failed) evs exists home err where
      "resolved opts (world s) opts' evs" "r = Some err"
      "trace s' = trace s @ evs @ [CallBucketExists (bucketName opts') (Inr exists)]
                   @ verified (map snd (imageRefs opts))
                   @ [CallDetermineHomeDir (Inr home),
                      CallDeployApp (filepath_Join g home cdkCoreDir)
                        (environmentVars g opts' exists) (Inl err)]"
  | (deployed) evs exists home stream pevs where
      "resolved opts (world s) opts' evs"
      "trace s' = trace s @ evs @ [CallBucketExists (bucketName opts') (Inr exists)]
                   @ verified (map snd (imageRefs opts))
                   @ [CallDetermineHomeDir (Inr home),
                      CallDeployApp (filepath_Join g home cdkCoreDir)
                        (environmentVars g opts' exists) (Inr stream)] @ pevs"
      "\<forall>e\<in>set pevs. is_progress e"
proof -
  obtain x s1 where b: "Execute_bucketName opts s = (x, s1)"
    by (cases "Execute_bucketName opts s")
  from b show ?thesis
  proof (cases rule: Execute_bucketName_cases)
    case (identity_failed err)
    with b assms have "r = Some err" "opts' = opts" "s' = s1"
      by (auto simp: Execute_def)
    with identity_failed show ?thesis
      using that(1) by blast
  next
    case (resolved opts1 evs)
    have refs: "imageRefs opts1 = imageRefs opts"
      using resolved(2) by (auto simp: resolved_def)
    obtain ex w2 where e: "BucketExists (s3Client opts1) (bucketName opts1) (world s1) = (ex, w2)"
      by (cases "BucketExists (s3Client opts1) (bucketName opts1) (world s1)")
    define s2 where "s2 = record_event (CallBucketExists (bucketName opts1) ex) w2 s1"
    have t2: "trace s2 = trace s @ evs @ [CallBucketExists (bucketName opts1) ex]"
      by (simp add: s2_def resolved(3))
    have c2: "call_BucketExists (s3Client opts1) (bucketName opts1) s1 = (ex, s2)"
      by (simp add: call_BucketExists_def e s2_def)
    show ?thesis
    proof (cases ex)
      case (Inl err)
      with b c2 resolved(1) assms have "r = Some err" "opts' = opts1" "s' = s2"
        by (auto simp: Execute_def)
      with resolved(2) t2 Inl show ?thesis
        using that(2) by blast
    next
      case ex: (Inr exists)
      obtain v s3 where v: "Execute_verify (ecrClient opts1) (map snd (imageRefs opts1)) s2 = (v, s3)"
        by (cases "Execute_verify (ecrClient opts1) (map snd (imageRefs opts1)) s2")
      show ?thesis
      proof (cases v)
        case (Some err)
        with b c2 resolved(1) ex v assms have *: "r = Some err" "opts' = opts1" "s' = s3"
          by (auto simp: Execute_def)
        from Execute_verify_Some[OF v[unfolded Some]] obtain pre imageRef post where
          "map snd (imageRefs opts1) = pre @ imageRef # post"
          "trace s3 = trace s2 @ verified pre @ [CallVerifyImageExists imageRef (Some err)]"
          by blast
        with * resolved(2) t2 ex refs show ?thesis
          using that(3)[of evs err pre imageRef post exists] by simp
      next
        case None
        obtain r4 s4 where d: "deployCoreInfrastructure g opts1 (environmentVars g opts1 exists) s3 = (r4, s4)"
          by (cases "deployCoreInfrastructure g opts1 (environmentVars g opts1 exists) s3")
        with b c2 resolved(1) ex v None assms have *: "r = r4" "opts' = opts1" "s' = s4"
          by (auto simp: Execute_def)
        have t3: "trace s3 = trace s @ evs @ [CallBucketExists (bucketName opts1) (Inr exists)]
                    @ verified (map snd (imageRefs opts))"
          using Execute_verify_None[OF v[unfolded None]] t2 ex refs by simp
        from d show ?thesis
        proof (cases rule: deployCoreInfrastructure_cases)
          case (home_failed err)
          with * resolved(2) t3 show ?thesis
            using that(4)[of evs err exists] by simp
        next
          case (deploy_failed home err)
          with * resolved(2) t3 show ?thesis
            using that(5)[of evs err exists home] by simp
        next
          case (deployed home stream pevs)
          with * resolved(2) t3 show ?thesis
            using that(6)[of evs exists home stream pevs] by simp
        qed
      qed
    qed
  qed
qed

lemma logOutputs_eq:
  "logOutputs ls s = \<lparr>world = world s, trace = trace s @ map LogError ls\<rparr>"
  by (induction ls arbitrary: s) (simp_all add: log_Error_def record_event_def)

lemma deployCoreInfrastructure_deployed:
  assumes "DetermineHomeDir g (world s) = (Inr home, w1)"
    and "DeployApp (cdkClient opts) (filepath_Join g home cdkCoreDir) envVars w1 = (Inr stream, w2)"
  shows "deployCoreInfrastructure g opts envVars s
           = deployCoreInfrastructure_progress g stream
               \<lparr>world = w2,
                trace = trace s @ [CallDetermineHomeDir (Inr home),
                  CallDeployApp (filepath_Join g home cdkCoreDir) envVars (Inr stream)]\<rparr>"
  using assms
  by (simp add: deployCoreInfrastructure_def call_DetermineHomeDir_def call_DeployApp_def
        record_event_def)

subsection \<open>Events of one kind in a trace\<close>

lemma split_unique:
  assumes "\<forall>e\<in>set A. \<not> Q e" "\<forall>e\<in>set P. \<not> Q e" "Q y" "A @ x # P = pre @ y # post"
  shows "pre = A \<and> y = x \<and> post = P"
  using assms
proof (induction A arbitrary: pre)
  case Nil
  then show ?case by (cases pre) auto
next
  case (Cons a A)
  then show ?case by (cases pre) auto
qed

lemma resolved_filter [simp]:
  assumes "resolved opts w opts' evs"
  shows "filter is_DeployApp evs = []" "filter is_BucketExists evs = []"
    "filter is_VerifyImageExists evs = []"
  using assms by (auto simp: resolved_def)

lemma verified_filter [simp]:
  "filter is_DeployApp (verified refs) = []" "filter is_BucketExists (verified refs) = []"
  "filter is_VerifyImageExists (verified refs) = verified refs"
  by (induction refs) (simp_all add: verified_def)

lemma is_progress_other:
  "is_progress e \<Longrightarrow> \<not> is_DeployApp e \<and> \<not> is_BucketExists e \<and> \<not> is_VerifyImageExists e
     \<and> collaborator_error e = None \<and> (\<forall>h. e \<noteq> CallDetermineHomeDir h)"
  by (cases e) simp_all

lemma progress_filter [simp]:
  assumes "\<forall>e\<in>set evs. is_progress e"
  shows "filter is_DeployApp evs = []" "filter is_BucketExists evs = []"
    "filter is_VerifyImageExists evs = []"
  using assms by (auto simp: filter_empty_conv dest: is_progress_other)

lemma environmentVars_length:
  "length (environmentVars g opts exists) = (if vpcId opts = [] then 14 else 15)"
  by (simp add: environmentVars_def)

lemma environmentVars_keys:
  "map env_key (environmentVars g opts exists) =
     [''AGC_BUCKET_NAME'', ''CREATE_AGC_BUCKET'',
      ''ECR_WES_ACCOUNT_ID'', ''ECR_WES_REGION'', ''ECR_WES_TAG'', ''ECR_WES_REPOSITORY'',
      ''ECR_CROMWELL_ACCOUNT_ID'', ''ECR_CROMWELL_REGION'', ''ECR_CROMWELL_TAG'',
      ''ECR_CROMWELL_REPOSITORY'',
      ''ECR_NEXTFLOW_ACCOUNT_ID'', ''ECR_NEXTFLOW_REGION'', ''ECR_NEXTFLOW_TAG'',
      ''ECR_NEXTFLOW_REPOSITORY'']
     @ (if vpcId opts = [] then [] else [''VPC_ID''])"
  by (simp add: environmentVars_def env_key_def)

lemma environmentVars_entries:
  "\<forall>entry\<in>set (environmentVars g opts exists). \<exists>v. entry = env_key entry @ ''='' @ v"
  by (simp add: environmentVars_def env_key_def)


text \<open>Unfolding the operations, and the concrete account, for running the model.\<close>

lemmas run_defs =
  Execute_result_def Execute_opts_def Execute_trace_def Execute_def Execute_bucketName_def
  generateDefaultBucket_def generateBucketName_def bucketPrefix_def cdkCoreDir_def
  deployCoreInfrastructure_def deployCoreInfrastructure_progress_def environmentVars_def
  lookupImageRef_def fmt_bool_def zero_ImageReference_def zero_ProgressEvent_def
  call_GetAccount_def call_BucketExists_def call_VerifyImageExists_def
  call_DetermineHomeDir_def call_DeployApp_def call_DisplayProgress_def
  log_Error_def log_Info_def record_event_def start_def

lemmas demo_defs =
  demo_env_def demo_opts_def demo_images_def demo_images_missing_def demo_image_def
  demo_sts_def demo_s3_def
  demo_ecr_def demo_cdk_def demo_stream_ok_def demo_stream_failed_def

section \<open>The claims\<close>

text \<open>
  Claim C9 (frame): \<^verbatim>\<open>Execute\<close> changes at most the \<^verbatim>\<open>bucketName\<close> field of
  the options. The VPC id, the image map, the region and the four clients are what they
  were; when the bucket name was not empty the options are unchanged altogether; and
  when the options did change, the bucket name was empty and is now the name generated
  from the account that the identity service returned in this run and the region.
  The other operations have value receivers and return no options.
\<close>

theorem Execute_frame:
  "vpcId (Execute_opts g opts s) = vpcId opts
   \<and> imageRefs (Execute_opts g opts s) = imageRefs opts
   \<and> region (Execute_opts g opts s) = region opts
   \<and> stsClient (Execute_opts g opts s) = stsClient opts
   \<and> s3Client (Execute_opts g opts s) = s3Client opts
   \<and> cdkClient (Execute_opts g opts s) = cdkClient opts
   \<and> ecrClient (Execute_opts g opts s) = ecrClient opts
   \<and> (bucketName opts \<noteq> [] \<longrightarrow> Execute_opts g opts s = opts)
   \<and> (Execute_opts g opts s \<noteq> opts \<longrightarrow>
        bucketName opts = [] \<and>
        (\<exists>account. CallGetAccount (Inr account) \<in> set (Execute_trace g opts s)
           \<and> Execute_opts g opts s
               = opts\<lparr>bucketName := generateBucketName account (region opts)\<rparr>))"
proof -
  obtain r opts' s' where run: "Execute g opts s = (r, opts', s')"
    by (cases "Execute g opts s") auto
  have sel: "Execute_opts g opts s = opts'" "Execute_trace g opts s = trace s'"
    by (simp_all add: Execute_opts_def Execute_trace_def run)
  have "opts' = opts \<or> (\<exists>evs. resolved opts (world s) opts' evs \<and> set evs \<subseteq> set (trace s'))"
    using run by (cases rule: Execute_cases) auto
  then show ?thesis
    unfolding sel by (auto simp: resolved_def)
qed

theorem Execute_frame_witness:
  "bucketName (demo_opts ''my-bucket'' ''vpc-123'' demo_images demo_stream_ok) \<noteq> []
   \<and> Execute_opts (demo_env True (Inr ''/home/u'') demo_stream_ok)
        (demo_opts ''my-bucket'' ''vpc-123'' demo_images demo_stream_ok) (start 0)
      = demo_opts ''my-bucket'' ''vpc-123'' demo_images demo_stream_ok
   \<and> Execute_opts (demo_env True (Inr ''/home/u'') demo_stream_ok)
        (demo_opts [] [] demo_images demo_stream_ok) (start 0)
      \<noteq> demo_opts [] [] demo_images demo_stream_ok
   \<and> bucketName (demo_opts [] [] demo_images demo_stream_ok) = []
   \<and> (\<exists>account. CallGetAccount (Inr account)
          \<in> set (Execute_trace (demo_env True (Inr ''/home/u'') demo_stream_ok)
                  (demo_opts [] [] demo_images demo_stream_ok) (start 0))
        \<and> Execute_opts (demo_env True (Inr ''/home/u'') demo_stream_ok)
            (demo_opts [] [] demo_images demo_stream_ok) (start 0)
           = (demo_opts [] [] demo_images demo_stream_ok)
               \<lparr>bucketName := generateBucketName account
                  (region (demo_opts [] [] demo_images demo_stream_ok))\<rparr>)"
proof -
  have h1: "bucketName (demo_opts ''my-bucket'' ''vpc-123'' demo_images demo_stream_ok) \<noteq> []"
    by (simp add: demo_opts_def)
  have h2: "Execute_opts (demo_env True (Inr ''/home/u'') demo_stream_ok)
        (demo_opts [] [] demo_images demo_stream_ok) (start 0)
      \<noteq> demo_opts [] [] demo_images demo_stream_ok"
    by (simp add: run_defs demo_defs)
  from h1 h2
    Execute_frame [of "demo_env True (Inr ''/home/u'') demo_stream_ok"
      "demo_opts ''my-bucket'' ''vpc-123'' demo_images demo_stream_ok" "start 0"]
    Execute_frame [of "demo_env True (Inr ''/home/u'') demo_stream_ok"
      "demo_opts [] [] demo_images demo_stream_ok" "start 0"]
  show ?thesis by blast
qed

text \<open>
  Claim C1: in every successful run of \<^verbatim>\<open>Execute\<close> the deployment tool is called
  once, with the environment list that lines 82 to 103 assemble. The list has 14 entries
  when the VPC id is empty and 15 otherwise; every entry is \<^verbatim>\<open>KEY=VALUE\<close>, and the
  keys are, in this order, \<^verbatim>\<open>AGC_BUCKET_NAME\<close>, \<^verbatim>\<open>CREATE_AGC_BUCKET\<close>, the four
  \<^verbatim>\<open>ECR_WES_\<close> keys, the four \<^verbatim>\<open>ECR_CROMWELL_\<close> keys, the four
  \<^verbatim>\<open>ECR_NEXTFLOW_\<close> keys and, only with a VPC id, \<^verbatim>\<open>VPC_ID\<close> last.
\<close>

theorem Execute_environment_list:
  assumes "Execute_result g opts (start w) = None"
  shows "\<exists>path envs stream.
           filter is_DeployApp (Execute_trace g opts (start w))
             = [CallDeployApp path envs (Inr stream)]
         \<and> (\<exists>exists. envs = environmentVars g (Execute_opts g opts (start w)) exists)
         \<and> length envs = (if vpcId opts = [] then 14 else 15)
         \<and> map env_key envs =
             [''AGC_BUCKET_NAME'', ''CREATE_AGC_BUCKET'',
              ''ECR_WES_ACCOUNT_ID'', ''ECR_WES_REGION'', ''ECR_WES_TAG'', ''ECR_WES_REPOSITORY'',
              ''ECR_CROMWELL_ACCOUNT_ID'', ''ECR_CROMWELL_REGION'', ''ECR_CROMWELL_TAG'',
              ''ECR_CROMWELL_REPOSITORY'',
              ''ECR_NEXTFLOW_ACCOUNT_ID'', ''ECR_NEXTFLOW_REGION'', ''ECR_NEXTFLOW_TAG'',
              ''ECR_NEXTFLOW_REPOSITORY'']
             @ (if vpcId opts = [] then [] else [''VPC_ID''])
         \<and> (\<forall>entry\<in>set envs. \<exists>v. entry = env_key entry @ ''='' @ v)"
proof -
  obtain r opts' s' where run: "Execute g opts (start w) = (r, opts', s')"
    by (cases "Execute g opts (start w)") auto
  have sel: "Execute_result g opts (start w) = r" "Execute_opts g opts (start w) = opts'"
    "Execute_trace g opts (start w) = trace s'"
    by (simp_all add: Execute_result_def Execute_opts_def Execute_trace_def run)
  have r: "r = None" using assms sel by simp
  have vpc: "vpcId opts' = vpcId opts"
    using run by (cases rule: Execute_cases) (auto simp: resolved_def)
  from run r obtain exists home stream where
    "filter is_DeployApp (trace s')
       = [CallDeployApp (filepath_Join g home cdkCoreDir) (environmentVars g opts' exists) (Inr stream)]"
    by (cases rule: Execute_cases) (auto simp: start_def)
  then show ?thesis
    unfolding sel
    using environmentVars_length[of g opts' exists] environmentVars_keys[of g opts' exists]
      environmentVars_entries[of g opts' exists] vpc
    by (intro exI[of _ "filepath_Join g home cdkCoreDir"]
          exI[of _ "environmentVars g opts' exists"] exI[of _ stream]) auto
qed

theorem Execute_environment_list_witness:
  "Execute_result (demo_env True (Inr ''/home/u'') demo_stream_ok)
     (demo_opts ''my-bucket'' ''vpc-123'' demo_images demo_stream_ok) (start 0) = None
   \<and> (\<exists>path envs stream.
         filter is_DeployApp
           (Execute_trace (demo_env True (Inr ''/home/u'') demo_stream_ok)
              (demo_opts ''my-bucket'' ''vpc-123'' demo_images demo_stream_ok) (start 0))
           = [CallDeployApp path envs (Inr stream)]
         \<and> length envs = 15 \<and> env_key (envs ! 14) = ''VPC_ID'')"
proof -
  have h: "Execute_result (demo_env True (Inr ''/home/u'') demo_stream_ok)
     (demo_opts ''my-bucket'' ''vpc-123'' demo_images demo_stream_ok) (start 0) = None"
    by (simp add: run_defs demo_defs)
  have v: "vpcId (demo_opts ''my-bucket'' ''vpc-123'' demo_images demo_stream_ok) \<noteq> []"
    by (simp add: demo_opts_def)
  from Execute_environment_list [OF h] obtain path envs stream where
    "filter is_DeployApp
           (Execute_trace (demo_env True (Inr ''/home/u'') demo_stream_ok)
              (demo_opts ''my-bucket'' ''vpc-123'' demo_images demo_stream_ok) (start 0))
           = [CallDeployApp path envs (Inr stream)]"
    "length envs = 15" "map env_key envs ! 14 = ''VPC_ID''"
    using v by auto
  then show ?thesis using h by (auto simp del: One_nat_def)
qed



text \<open>
  Claim C4 (first failure short-circuits): when the identity lookup, the bucket existence
  check or an image verification fails in a run of \<^verbatim>\<open>Execute\<close>, nothing happens
  after it (no retry, no later step), \<^verbatim>\<open>Execute\<close> returns that very error, no
  earlier call had failed, and the deployment tool is not called in the run.
\<close>

theorem first_failure_short_circuit:
  assumes "Execute_trace g opts (start w) = pre @ ev # post"
    and "collaborator_error ev = Some err"
  shows "post = [] \<and> Execute_result g opts (start w) = Some err
         \<and> (\<forall>e\<in>set pre. collaborator_error e = None)
         \<and> filter is_DeployApp (Execute_trace g opts (start w)) = []"
proof -
  obtain r opts' s' where run: "Execute g opts (start w) = (r, opts', s')"
    by (cases "Execute g opts (start w)") auto
  have sel: "Execute_result g opts (start w) = r" "Execute_trace g opts (start w) = trace s'"
    by (simp_all add: Execute_result_def Execute_trace_def run)
  let ?Q = "\<lambda>e. collaborator_error e \<noteq> None"
  have Q: "?Q ev" using assms(2) by simp
  have tr: "trace s' = pre @ ev # post" using assms(1) sel by simp
  have res: "\<forall>e\<in>set evs. \<not> ?Q e" if "resolved opts w opts' evs" for evs
    using that by (auto simp: resolved_def)
  have ver: "\<forall>e\<in>set (verified refs). \<not> ?Q e" for refs
    by (auto simp: verified_def)
  have prog: "\<forall>e\<in>set evs. \<not> ?Q e" if "\<forall>e\<in>set evs. is_progress e" for evs
    using that by (auto dest: is_progress_other)
  have key: "post = [] \<and> r = Some err \<and> (\<forall>e\<in>set pre. \<not> ?Q e) \<and> filter is_DeployApp A = []"
    if "trace s' = A @ [x]" "\<forall>e\<in>set A. \<not> ?Q e" "?Q x \<longrightarrow> r = collaborator_error x"
       "filter is_DeployApp A = []" for A x
  proof -
    have "A @ x # [] = pre @ ev # post" using that(1) tr by simp
    from split_unique[of A ?Q "[]" ev x pre post, OF that(2) _ Q this]
    have "pre = A" "ev = x" "post = []" by simp_all
    with that assms(2) show ?thesis by auto
  qed
  have none: False if "trace s' = A" "\<forall>e\<in>set A. \<not> ?Q e" for A
    using that tr Q by auto
  from run show ?thesis
  proof (cases rule: Execute_cases)
    case (identity_failed err')
    then show ?thesis
      unfolding sel using key[of "[]" "CallGetAccount (Inl err')"] by (simp add: start_def)
  next
    case (bucket_failed evs err')
    then show ?thesis
      unfolding sel using key[of evs "CallBucketExists (bucketName opts') (Inl err')"] res[of evs]
      by (simp add: start_def)
  next
    case (image_failed evs exists pre' imageRef post' err')
    then show ?thesis
      unfolding sel
      using key[of "evs @ [CallBucketExists (bucketName opts') (Inr exists)] @ verified pre'"
                   "CallVerifyImageExists imageRef (Some err')"] res[of evs] ver[of pre']
      by (auto simp: start_def)
  next
    case (home_failed evs exists err')
    then show ?thesis
      using none[of "evs @ [CallBucketExists (bucketName opts') (Inr exists)]
                   @ verified (map snd (imageRefs opts)) @ [CallDetermineHomeDir (Inl err')]"]
        res[of evs] ver[of "map snd (imageRefs opts)"]
      by (auto simp: start_def)
  next
    case (deploy_failed evs exists home err')
    then show ?thesis
      using none[of "evs @ [CallBucketExists (bucketName opts') (Inr exists)]
                   @ verified (map snd (imageRefs opts))
                   @ [CallDetermineHomeDir (Inr home),
                      CallDeployApp (filepath_Join g home cdkCoreDir)
                        (environmentVars g opts' exists) (Inl err')]"]
        res[of evs] ver[of "map snd (imageRefs opts)"]
      by (auto simp: start_def)
  next
    case (deployed evs exists home stream pevs)
    then show ?thesis
      using none[of "evs @ [CallBucketExists (bucketName opts') (Inr exists)]
                   @ verified (map snd (imageRefs opts))
                   @ [CallDetermineHomeDir (Inr home),
                      CallDeployApp (filepath_Join g home cdkCoreDir)
                        (environmentVars g opts' exists) (Inr stream)] @ pevs"]
        res[of evs] ver[of "map snd (imageRefs opts)"] prog[of pevs]
      by (auto simp: start_def)
  qed
qed

theorem first_failure_short_circuit_witness:
  "Execute_trace (demo_env True (Inr ''/home/u'') demo_stream_ok)
      (demo_opts ''my-bucket'' [] demo_images_missing demo_stream_ok) (start 0)
     = [CallBucketExists ''my-bucket'' (Inr True),
        CallVerifyImageExists (demo_image ''agc-wes'' ''0.1.0'') None]
       @ CallVerifyImageExists (demo_image ''agc-cromwell'' ''missing'')
           (Some (Error ''image not found'')) # []
   \<and> collaborator_error (CallVerifyImageExists (demo_image ''agc-cromwell'' ''missing'')
           (Some (Error ''image not found''))) = Some (Error ''image not found'')
   \<and> Execute_result (demo_env True (Inr ''/home/u'') demo_stream_ok)
        (demo_opts ''my-bucket'' [] demo_images_missing demo_stream_ok) (start 0)
       = Some (Error ''image not found'')
   \<and> filter is_DeployApp
        (Execute_trace (demo_env True (Inr ''/home/u'') demo_stream_ok)
           (demo_opts ''my-bucket'' [] demo_images_missing demo_stream_ok) (start 0)) = []"
proof -
  have h1: "Execute_trace (demo_env True (Inr ''/home/u'') demo_stream_ok)
      (demo_opts ''my-bucket'' [] demo_images_missing demo_stream_ok) (start 0)
     = [CallBucketExists ''my-bucket'' (Inr True),
        CallVerifyImageExists (demo_image ''agc-wes'' ''0.1.0'') None]
       @ CallVerifyImageExists (demo_image ''agc-cromwell'' ''missing'')
           (Some (Error ''image not found'')) # []"
    by (simp add: run_defs demo_defs)
  have h2: "collaborator_error (CallVerifyImageExists (demo_image ''agc-cromwell'' ''missing'')
           (Some (Error ''image not found''))) = Some (Error ''image not found'')"
    by simp
  from first_failure_short_circuit [OF h1 h2] h1 h2 show ?thesis by blast
qed



text \<open>
  Claim C6: a run of \<^verbatim>\<open>Execute\<close> reaches deployment when it asks for the home
  directory. If the home directory cannot be determined, that error is the result and
  the deployment tool is not called. If it is determined, the deployment tool is called
  exactly once, with the path \<^verbatim>\<open>filepath.Join\<close> makes of the home directory and the
  fixed subpath \<^verbatim>\<open>.agc/cdk/apps/core\<close>, and with the assembled environment list.
  The deployment tool is called in no other run.
\<close>

theorem deploy_once:
  "cdkCoreDir = ''.agc/cdk/apps/core''
   \<and> (\<forall>err. CallDetermineHomeDir (Inl err) \<in> set (Execute_trace g opts (start w)) \<longrightarrow>
         Execute_result g opts (start w) = Some err
         \<and> filter is_DeployApp (Execute_trace g opts (start w)) = [])
   \<and> (\<forall>home. CallDetermineHomeDir (Inr home) \<in> set (Execute_trace g opts (start w)) \<longrightarrow>
         (\<exists>exists d. filter is_DeployApp (Execute_trace g opts (start w))
            = [CallDeployApp (filepath_Join g home cdkCoreDir)
                 (environmentVars g (Execute_opts g opts (start w)) exists) d]))
   \<and> (filter is_DeployApp (Execute_trace g opts (start w)) \<noteq> [] \<longrightarrow>
         (\<exists>home. CallDetermineHomeDir (Inr home) \<in> set (Execute_trace g opts (start w))))"
proof -
  obtain r opts' s' where run: "Execute g opts (start w) = (r, opts', s')"
    by (cases "Execute g opts (start w)") auto
  have sel: "Execute_result g opts (start w) = r" "Execute_opts g opts (start w) = opts'"
    "Execute_trace g opts (start w) = trace s'"
    by (simp_all add: Execute_result_def Execute_opts_def Execute_trace_def run)
  have res: "CallDetermineHomeDir h \<notin> set evs" if "resolved opts w opts' evs" for evs h
    using that by (auto simp: resolved_def)
  have ver: "CallDetermineHomeDir h \<notin> set (verified refs)" for refs h
    by (auto simp: verified_def)
  have prog: "CallDetermineHomeDir h \<notin> set evs" if "\<forall>e\<in>set evs. is_progress e" for evs h
    using that by (auto dest: is_progress_other)
  from run show ?thesis
    unfolding sel
    by (cases rule: Execute_cases)
       (auto simp: start_def cdkCoreDir_def ver dest: res prog)
qed

theorem deploy_once_witness:
  "CallDetermineHomeDir (Inl (Error ''no home''))
     \<in> set (Execute_trace (demo_env True (Inl (Error ''no home'')) demo_stream_ok)
              (demo_opts ''my-bucket'' ''vpc-123'' demo_images demo_stream_ok) (start 0))
   \<and> Execute_result (demo_env True (Inl (Error ''no home'')) demo_stream_ok)
        (demo_opts ''my-bucket'' ''vpc-123'' demo_images demo_stream_ok) (start 0)
       = Some (Error ''no home'')
   \<and> filter is_DeployApp
        (Execute_trace (demo_env True (Inl (Error ''no home'')) demo_stream_ok)
           (demo_opts ''my-bucket'' ''vpc-123'' demo_images demo_stream_ok) (start 0)) = []
   \<and> CallDetermineHomeDir (Inr ''/home/u'')
       \<in> set (Execute_trace (demo_env True (Inr ''/home/u'') demo_stream_ok)
                (demo_opts ''my-bucket'' ''vpc-123'' demo_images demo_stream_ok) (start 0))
   \<and> (\<exists>exists d.
         filter is_DeployApp
           (Execute_trace (demo_env True (Inr ''/home/u'') demo_stream_ok)
              (demo_opts ''my-bucket'' ''vpc-123'' demo_images demo_stream_ok) (start 0))
          = [CallDeployApp ''/home/u/.agc/cdk/apps/core''
               (environmentVars (demo_env True (Inr ''/home/u'') demo_stream_ok)
                  (Execute_opts (demo_env True (Inr ''/home/u'') demo_stream_ok)
                     (demo_opts ''my-bucket'' ''vpc-123'' demo_images demo_stream_ok) (start 0))
                  exists) d])"
proof -
  have h1: "CallDetermineHomeDir (Inl (Error ''no home''))
     \<in> set (Execute_trace (demo_env True (Inl (Error ''no home'')) demo_stream_ok)
              (demo_opts ''my-bucket'' ''vpc-123'' demo_images demo_stream_ok) (start 0))"
    by (simp add: run_defs demo_defs)
  have h2: "CallDetermineHomeDir (Inr ''/home/u'')
       \<in> set (Execute_trace (demo_env True (Inr ''/home/u'') demo_stream_ok)
                (demo_opts ''my-bucket'' ''vpc-123'' demo_images demo_stream_ok) (start 0))"
    by (simp add: run_defs demo_defs)
  have j: "filepath_Join (demo_env True (Inr ''/home/u'') demo_stream_ok) ''/home/u'' cdkCoreDir
             = ''/home/u/.agc/cdk/apps/core''"
    by (simp add: demo_env_def cdkCoreDir_def)
  from h1 h2
    deploy_once [of "demo_env True (Inl (Error ''no home'')) demo_stream_ok"
      "demo_opts ''my-bucket'' ''vpc-123'' demo_images demo_stream_ok" 0]
    deploy_once [of "demo_env True (Inr ''/home/u'') demo_stream_ok"
      "demo_opts ''my-bucket'' ''vpc-123'' demo_images demo_stream_ok" 0]
  show ?thesis unfolding j [symmetric] by blast
qed

text \<open>
  Claim C3 (bucket name resolution): when the bucket flag is not empty, the resolved
  bucket name (the one \<^verbatim>\<open>Execute\<close> leaves in the options and asks the storage
  service about first) is the flag verbatim, whatever the account and the region. When
  the flag is empty and the identity service returns an account, the resolved name is
  \<^verbatim>\<open>agc-<account>-<region>\<close>, made of that account and the region of the options.
\<close>

theorem bucket_name_resolution:
  "(bucketName opts \<noteq> [] \<longrightarrow>
      bucketName (Execute_opts g opts (start w)) = bucketName opts
      \<and> (\<exists>r rest. Execute_trace g opts (start w)
            = CallBucketExists (bucketName opts) r # rest))
   \<and> (bucketName opts = [] \<longrightarrow>
        (\<forall>account w1. GetAccount (stsClient opts) w = (Inr account, w1) \<longrightarrow>
           bucketName (Execute_opts g opts (start w)) = ''agc-'' @ account @ ''-'' @ region opts
           \<and> (\<exists>r rest. Execute_trace g opts (start w)
                 = CallGetAccount (Inr account)
                   # CallBucketExists (''agc-'' @ account @ ''-'' @ region opts) r # rest)))"
proof -
  obtain r opts' s' where run: "Execute g opts (start w) = (r, opts', s')"
    by (cases "Execute g opts (start w)") auto
  have sel: "Execute_opts g opts (start w) = opts'" "Execute_trace g opts (start w) = trace s'"
    by (simp_all add: Execute_opts_def Execute_trace_def run)
  have w: "world (start w) = w" "trace (start w) = []" by (simp_all add: start_def)
  from run show ?thesis
    unfolding sel
    by (cases rule: Execute_cases)
       (auto simp: w resolved_def generateBucketName_def bucketPrefix_def)
qed

theorem bucket_name_resolution_witness:
  "bucketName (demo_opts ''my-bucket'' [] demo_images demo_stream_ok) \<noteq> []
   \<and> bucketName (Execute_opts (demo_env True (Inr ''/home/u'') demo_stream_ok)
        (demo_opts ''my-bucket'' [] demo_images demo_stream_ok) (start 0)) = ''my-bucket''
   \<and> bucketName (demo_opts [] [] demo_images demo_stream_ok) = []
   \<and> GetAccount (stsClient (demo_opts [] [] demo_images demo_stream_ok)) 0
       = (Inr ''123456789012'', 1)
   \<and> bucketName (Execute_opts (demo_env True (Inr ''/home/u'') demo_stream_ok)
        (demo_opts [] [] demo_images demo_stream_ok) (start 0)) = ''agc-123456789012-us-east-1''"
proof -
  have h1: "bucketName (demo_opts ''my-bucket'' [] demo_images demo_stream_ok) \<noteq> []"
    and n1: "bucketName (demo_opts ''my-bucket'' [] demo_images demo_stream_ok) = ''my-bucket''"
    and h2: "bucketName (demo_opts [] [] demo_images demo_stream_ok) = []"
    and h3: "GetAccount (stsClient (demo_opts [] [] demo_images demo_stream_ok)) 0
               = (Inr ''123456789012'', 1)"
    and n2: "region (demo_opts [] [] demo_images demo_stream_ok) = ''us-east-1''"
    by (simp_all add: demo_opts_def demo_sts_def)
  from bucket_name_resolution [of "demo_opts ''my-bucket'' [] demo_images demo_stream_ok"
      "demo_env True (Inr ''/home/u'') demo_stream_ok" 0] h1 n1
  have a: "bucketName (Execute_opts (demo_env True (Inr ''/home/u'') demo_stream_ok)
        (demo_opts ''my-bucket'' [] demo_images demo_stream_ok) (start 0)) = ''my-bucket''"
    by simp
  from bucket_name_resolution [of "demo_opts [] [] demo_images demo_stream_ok"
      "demo_env True (Inr ''/home/u'') demo_stream_ok" 0] h2 h3 n2
  have b: "bucketName (Execute_opts (demo_env True (Inr ''/home/u'') demo_stream_ok)
        (demo_opts [] [] demo_images demo_stream_ok) (start 0)) = ''agc-123456789012-us-east-1''"
    by simp
  from h1 a h2 h3 b show ?thesis by blast
qed

text \<open>
  Claim C7 (consuming the progress stream): \<^verbatim>\<open>deployCoreInfrastructure\<close>, started
  in any state, once the home directory is determined and \<^verbatim>\<open>DeployApp\<close> has returned
  a stream. In verbose mode: when no event of that stream carries an error, the function
  returns success and its trace holds the two calls only, so nothing is logged or
  displayed; when \<open>ev\<close> is the first event that carries an error, the function returns
  that error, whatever follows \<open>ev\<close> in the stream is not looked at, and after the two
  calls the trace holds exactly the output lines of the event before \<open>ev\<close> (of the zero
  event when \<open>ev\<close> is the first), each as an error line. In non-verbose mode the stream's
  \<^verbatim>\<open>DisplayProgress\<close> is called once, after the two calls, with the label
  \<^verbatim>\<open>Activating account...\<close>, and the function returns its result.
\<close>

theorem progress_consumption:
  assumes "DetermineHomeDir g (world s) = (Inr home, w1)"
    and "DeployApp (cdkClient opts) (filepath_Join g home cdkCoreDir) envVars w1 = (Inr stream, w2)"
  shows "(logging_Verbose g \<longrightarrow>
      ((\<forall>e\<in>set stream. Err e = None) \<longrightarrow>
         deployCoreInfrastructure g opts envVars s
           = (None,
              \<lparr>world = w2,
               trace = trace s @ [CallDetermineHomeDir (Inr home),
                 CallDeployApp (filepath_Join g home cdkCoreDir) envVars (Inr stream)]\<rparr>))
      \<and> (\<forall>pre ev post err.
            stream = pre @ ev # post \<and> (\<forall>e\<in>set pre. Err e = None) \<and> Err ev = Some err \<longrightarrow>
              deployCoreInfrastructure g opts envVars s
                = (Some err,
                   \<lparr>world = w2,
                    trace = trace s @ [CallDetermineHomeDir (Inr home),
                      CallDeployApp (filepath_Join g home cdkCoreDir) envVars (Inr stream)]
                      @ map LogError (Outputs (last (zero_ProgressEvent # pre)))\<rparr>)))
   \<and> (\<not> logging_Verbose g \<longrightarrow>
        (\<forall>r w3. DisplayProgress g stream ''Activating account...'' w2 = (r, w3) \<longrightarrow>
           deployCoreInfrastructure g opts envVars s
             = (r,
                \<lparr>world = w3,
                 trace = trace s @ [CallDetermineHomeDir (Inr home),
                   CallDeployApp (filepath_Join g home cdkCoreDir) envVars (Inr stream),
                   CallDisplayProgress stream ''Activating account...'' r]\<rparr>)))"
proof -
  let ?s2 = "\<lparr>world = w2,
              trace = trace s @ [CallDetermineHomeDir (Inr home),
                CallDeployApp (filepath_Join g home cdkCoreDir) envVars (Inr stream)]\<rparr>"
  have d: "deployCoreInfrastructure g opts envVars s = deployCoreInfrastructure_progress g stream ?s2"
    using assms by (rule deployCoreInfrastructure_deployed)
  show ?thesis
  proof (intro conjI impI allI)
    assume "logging_Verbose g" "\<forall>e\<in>set stream. Err e = None"
    then show "deployCoreInfrastructure g opts envVars s = (None, ?s2)"
      unfolding d by (simp add: deployCoreInfrastructure_progress_def consumeVerbose_no_error)
  next
    fix pre ev post err
    assume "logging_Verbose g"
      and "stream = pre @ ev # post \<and> (\<forall>e\<in>set pre. Err e = None) \<and> Err ev = Some err"
    then show "deployCoreInfrastructure g opts envVars s
                = (Some err,
                   \<lparr>world = w2,
                    trace = trace s @ [CallDetermineHomeDir (Inr home),
                      CallDeployApp (filepath_Join g home cdkCoreDir) envVars (Inr stream)]
                      @ map LogError (Outputs (last (zero_ProgressEvent # pre)))\<rparr>)"
      unfolding d
      using consumeVerbose_error[of pre ev err post zero_ProgressEvent ?s2]
      by (simp add: deployCoreInfrastructure_progress_def logOutputs_eq)
  next
    fix r w3
    assume "\<not> logging_Verbose g" "DisplayProgress g stream ''Activating account...'' w2 = (r, w3)"
    then show "deployCoreInfrastructure g opts envVars s
             = (r,
                \<lparr>world = w3,
                 trace = trace s @ [CallDetermineHomeDir (Inr home),
                   CallDeployApp (filepath_Join g home cdkCoreDir) envVars (Inr stream),
                   CallDisplayProgress stream ''Activating account...'' r]\<rparr>)"
      unfolding d
      by (simp add: deployCoreInfrastructure_progress_def call_DisplayProgress_def record_event_def)
  qed
qed

theorem progress_consumption_witness:
  "logging_Verbose (demo_env True (Inr ''/home/u'') demo_stream_ok)
   \<and> DetermineHomeDir (demo_env True (Inr ''/home/u'') demo_stream_ok) (world (start 0))
       = (Inr ''/home/u'', 1)
   \<and> map Err demo_stream_ok = [None, None]
   \<and> deployCoreInfrastructure (demo_env True (Inr ''/home/u'') demo_stream_ok)
        (demo_opts ''my-bucket'' [] demo_images demo_stream_ok)
        [''AGC_BUCKET_NAME=my-bucket''] (start 0)
       = (None,
          \<lparr>world = 2,
           trace = [CallDetermineHomeDir (Inr ''/home/u''),
                    CallDeployApp ''/home/u/.agc/cdk/apps/core'' [''AGC_BUCKET_NAME=my-bucket'']
                      (Inr demo_stream_ok)]\<rparr>)
   \<and> demo_stream_failed
       = [\<lparr>Outputs = [''creating stack''], Err = None\<rparr>,
          \<lparr>Outputs = [''creating stack'', ''rolling back''], Err = None\<rparr>]
         @ \<lparr>Outputs = [], Err = Some (Error ''deployment failed'')\<rparr>
         # [\<lparr>Outputs = [''late''], Err = None\<rparr>]
   \<and> deployCoreInfrastructure (demo_env True (Inr ''/home/u'') demo_stream_failed)
        (demo_opts ''my-bucket'' [] demo_images demo_stream_failed)
        [''AGC_BUCKET_NAME=my-bucket''] (start 0)
       = (Some (Error ''deployment failed''),
          \<lparr>world = 2,
           trace = [CallDetermineHomeDir (Inr ''/home/u''),
                    CallDeployApp ''/home/u/.agc/cdk/apps/core'' [''AGC_BUCKET_NAME=my-bucket'']
                      (Inr demo_stream_failed),
                    LogError ''creating stack'', LogError ''rolling back'']\<rparr>)
   \<and> \<not> logging_Verbose (demo_env False (Inr ''/home/u'') demo_stream_ok)
   \<and> DisplayProgress (demo_env False (Inr ''/home/u'') demo_stream_ok) demo_stream_ok
        ''Activating account...'' 2 = (None, 3)
   \<and> deployCoreInfrastructure (demo_env False (Inr ''/home/u'') demo_stream_ok)
        (demo_opts ''my-bucket'' [] demo_images demo_stream_ok)
        [''AGC_BUCKET_NAME=my-bucket''] (start 0)
       = (None,
          \<lparr>world = 3,
           trace = [CallDetermineHomeDir (Inr ''/home/u''),
                    CallDeployApp ''/home/u/.agc/cdk/apps/core'' [''AGC_BUCKET_NAME=my-bucket'']
                      (Inr demo_stream_ok),
                    CallDisplayProgress demo_stream_ok ''Activating account...'' None]\<rparr>)"
proof -
  have v: "logging_Verbose (demo_env True (Inr ''/home/u'') stream)"
    and nv: "\<not> logging_Verbose (demo_env False (Inr ''/home/u'') stream)"
    and h: "DetermineHomeDir (demo_env verbose (Inr ''/home/u'') stream) (world (start 0))
              = (Inr ''/home/u'', 1)"
    and j: "filepath_Join (demo_env verbose (Inr ''/home/u'') stream) ''/home/u'' cdkCoreDir
              = ''/home/u/.agc/cdk/apps/core''"
    and d: "DeployApp (cdkClient (demo_opts ''my-bucket'' [] demo_images stream))
              (filepath_Join (demo_env verbose (Inr ''/home/u'') stream) ''/home/u'' cdkCoreDir)
              [''AGC_BUCKET_NAME=my-bucket''] 1 = (Inr stream, 2)"
    and p: "DisplayProgress (demo_env False (Inr ''/home/u'') demo_stream_ok) demo_stream_ok
              ''Activating account...'' 2 = (None, 3)"
    for verbose stream
    by (simp_all add: demo_env_def demo_opts_def demo_cdk_def cdkCoreDir_def start_def)
  have t: "trace (start (0::nat)) = []" by (simp add: start_def)
  have ok: "\<forall>e\<in>set demo_stream_ok. Err e = None"
    and ok': "map Err demo_stream_ok = [None, None]"
    by (simp_all add: demo_stream_ok_def)
  have split: "demo_stream_failed
       = [\<lparr>Outputs = [''creating stack''], Err = None\<rparr>,
          \<lparr>Outputs = [''creating stack'', ''rolling back''], Err = None\<rparr>]
         @ \<lparr>Outputs = [], Err = Some (Error ''deployment failed'')\<rparr>
         # [\<lparr>Outputs = [''late''], Err = None\<rparr>]"
    by (simp add: demo_stream_failed_def)
  have pre: "\<forall>e\<in>set [\<lparr>Outputs = [''creating stack''], Err = None\<rparr>,
          \<lparr>Outputs = [''creating stack'', ''rolling back''], Err = None\<rparr>]. Err e = None"
    and ev: "Err \<lparr>Outputs = [], Err = Some (Error ''deployment failed'')\<rparr>
               = Some (Error ''deployment failed'')"
    by simp_all
  note a = progress_consumption [OF h d, of True demo_stream_ok]
  note b = progress_consumption [OF h d, of True demo_stream_failed]
  note c = progress_consumption [OF h d, of False demo_stream_ok]
  have 1: "deployCoreInfrastructure (demo_env True (Inr ''/home/u'') demo_stream_ok)
        (demo_opts ''my-bucket'' [] demo_images demo_stream_ok)
        [''AGC_BUCKET_NAME=my-bucket''] (start 0)
       = (None,
          \<lparr>world = 2,
           trace = [CallDetermineHomeDir (Inr ''/home/u''),
                    CallDeployApp ''/home/u/.agc/cdk/apps/core'' [''AGC_BUCKET_NAME=my-bucket'']
                      (Inr demo_stream_ok)]\<rparr>)"
    using a v ok by (simp add: t j)
  have "deployCoreInfrastructure (demo_env True (Inr ''/home/u'') demo_stream_failed)
        (demo_opts ''my-bucket'' [] demo_images demo_stream_failed)
        [''AGC_BUCKET_NAME=my-bucket''] (start 0)
       = (Some (Error ''deployment failed''),
          \<lparr>world = 2,
           trace = trace (start (0::nat)) @ [CallDetermineHomeDir (Inr ''/home/u''),
                    CallDeployApp (filepath_Join (demo_env True (Inr ''/home/u'') demo_stream_failed)
                        ''/home/u'' cdkCoreDir) [''AGC_BUCKET_NAME=my-bucket'']
                      (Inr demo_stream_failed)]
               @ map LogError (Outputs (last (zero_ProgressEvent #
                   [\<lparr>Outputs = [''creating stack''], Err = None\<rparr>,
                    \<lparr>Outputs = [''creating stack'', ''rolling back''], Err = None\<rparr>])))\<rparr>)"
    using b v split pre ev by blast
  then have 2: "deployCoreInfrastructure (demo_env True (Inr ''/home/u'') demo_stream_failed)
        (demo_opts ''my-bucket'' [] demo_images demo_stream_failed)
        [''AGC_BUCKET_NAME=my-bucket''] (start 0)
       = (Some (Error ''deployment failed''),
          \<lparr>world = 2,
           trace = [CallDetermineHomeDir (Inr ''/home/u''),
                    CallDeployApp ''/home/u/.agc/cdk/apps/core'' [''AGC_BUCKET_NAME=my-bucket'']
                      (Inr demo_stream_failed),
                    LogError ''creating stack'', LogError ''rolling back'']\<rparr>)"
    by (simp add: t j)
  have 3: "deployCoreInfrastructure (demo_env False (Inr ''/home/u'') demo_stream_ok)
        (demo_opts ''my-bucket'' [] demo_images demo_stream_ok)
        [''AGC_BUCKET_NAME=my-bucket''] (start 0)
       = (None,
          \<lparr>world = 3,
           trace = [CallDetermineHomeDir (Inr ''/home/u''),
                    CallDeployApp ''/home/u/.agc/cdk/apps/core'' [''AGC_BUCKET_NAME=my-bucket'']
                      (Inr demo_stream_ok),
                    CallDisplayProgress demo_stream_ok ''Activating account...'' None]\<rparr>)"
    using c nv p by (simp add: t j)
  from v h ok' 1 split 2 nv p 3 show ?thesis by (intro conjI)
qed

text \<open>
  Claim C8 (the command line boundary): the options are always constructed; when
  \<^verbatim>\<open>Execute\<close> returns an error, the command returns \<^verbatim>\<open>clierror.New\<close> of the
  command name \<^verbatim>\<open>account activate\<close>, the variables the user supplied, that error and
  the fixed hint; when \<^verbatim>\<open>Execute\<close> succeeds, the command returns no error.
\<close>

theorem cli_boundary:
  "activate_hint
     = ''check you have valid aws credentials, check the custom bucket and VPC (if any) exist''
   \<and> (\<exists>opts.
         newAccountActivateOpts g vars = Inr opts
         \<and> (Execute_result g opts (log_Info (activate_info opts) s) = None \<longrightarrow>
              fst (activate_RunE g vars s) = None)
         \<and> (\<forall>err. Execute_result g opts (log_Info (activate_info opts) s) = Some err \<longrightarrow>
              fst (activate_RunE g vars s)
                = Some (clierror_New g ''account activate'' vars err activate_hint)))"
proof (rule conjI)
  show "activate_hint
     = ''check you have valid aws credentials, check the custom bucket and VPC (if any) exist''"
    by (simp add: activate_hint_def)
next
  obtain opts where n: "newAccountActivateOpts g vars = Inr opts"
    by (simp add: newAccountActivateOpts_def)
  obtain r opts1 s1 where run: "Execute g opts (log_Info (activate_info opts) s) = (r, opts1, s1)"
    by (cases "Execute g opts (log_Info (activate_info opts) s)") auto
  have "fst (activate_RunE g vars s)
          = (case r of None \<Rightarrow> None
             | Some err \<Rightarrow> Some (clierror_New g ''account activate'' vars err activate_hint))"
    by (simp add: activate_RunE_def n run split: option.splits)
  then have c: "(Execute_result g opts (log_Info (activate_info opts) s) = None \<longrightarrow>
          fst (activate_RunE g vars s) = None)
     \<and> (\<forall>err. Execute_result g opts (log_Info (activate_info opts) s) = Some err \<longrightarrow>
          fst (activate_RunE g vars s)
            = Some (clierror_New g ''account activate'' vars err activate_hint))"
    by (simp add: Execute_result_def run)
  from conjI [OF n c] show "\<exists>opts.
         newAccountActivateOpts g vars = Inr opts
         \<and> (Execute_result g opts (log_Info (activate_info opts) s) = None \<longrightarrow>
              fst (activate_RunE g vars s) = None)
         \<and> (\<forall>err. Execute_result g opts (log_Info (activate_info opts) s) = Some err \<longrightarrow>
              fst (activate_RunE g vars s)
                = Some (clierror_New g ''account activate'' vars err activate_hint))"
    by (rule exI [of _ opts])
qed

theorem cli_boundary_witness:
  "Execute_result (demo_env True (Inr ''/home/u'') demo_stream_failed)
      (demo_opts ''my-bucket'' ''vpc-123'' demo_images demo_stream_failed)
      (log_Info (activate_info (demo_opts ''my-bucket'' ''vpc-123'' demo_images demo_stream_failed))
         (start 0))
     = Some (Error ''deployment failed'')
   \<and> fst (activate_RunE (demo_env True (Inr ''/home/u'') demo_stream_failed)
          \<lparr>bucketName = ''my-bucket'', vpcId = ''vpc-123''\<rparr> (start 0))
       = Some (clierror_New (demo_env True (Inr ''/home/u'') demo_stream_failed)
           ''account activate'' \<lparr>bucketName = ''my-bucket'', vpcId = ''vpc-123''\<rparr>
           (Error ''deployment failed'') activate_hint)
   \<and> Execute_result (demo_env True (Inr ''/home/u'') demo_stream_ok)
      (demo_opts ''my-bucket'' ''vpc-123'' demo_images demo_stream_ok)
      (log_Info (activate_info (demo_opts ''my-bucket'' ''vpc-123'' demo_images demo_stream_ok))
         (start 0))
     = None
   \<and> fst (activate_RunE (demo_env True (Inr ''/home/u'') demo_stream_ok)
          \<lparr>bucketName = ''my-bucket'', vpcId = ''vpc-123''\<rparr> (start 0)) = None"
proof -
  have n: "newAccountActivateOpts (demo_env True (Inr ''/home/u'') stream)
             \<lparr>bucketName = ''my-bucket'', vpcId = ''vpc-123''\<rparr>
           = Inr (demo_opts ''my-bucket'' ''vpc-123'' demo_images stream)" for stream
    by (simp add: newAccountActivateOpts_def demo_env_def demo_opts_def)
  have h1: "Execute_result (demo_env True (Inr ''/home/u'') demo_stream_failed)
      (demo_opts ''my-bucket'' ''vpc-123'' demo_images demo_stream_failed)
      (log_Info (activate_info (demo_opts ''my-bucket'' ''vpc-123'' demo_images demo_stream_failed))
         (start 0))
     = Some (Error ''deployment failed'')"
    by (simp add: run_defs demo_defs)
  have h2: "Execute_result (demo_env True (Inr ''/home/u'') demo_stream_ok)
      (demo_opts ''my-bucket'' ''vpc-123'' demo_images demo_stream_ok)
      (log_Info (activate_info (demo_opts ''my-bucket'' ''vpc-123'' demo_images demo_stream_ok))
         (start 0))
     = None"
    by (simp add: run_defs demo_defs)
  from cli_boundary [of "demo_env True (Inr ''/home/u'') demo_stream_failed"
      "\<lparr>bucketName = ''my-bucket'', vpcId = ''vpc-123''\<rparr>" "start 0"]
  have 1: "fst (activate_RunE (demo_env True (Inr ''/home/u'') demo_stream_failed)
          \<lparr>bucketName = ''my-bucket'', vpcId = ''vpc-123''\<rparr> (start 0))
       = Some (clierror_New (demo_env True (Inr ''/home/u'') demo_stream_failed)
           ''account activate'' \<lparr>bucketName = ''my-bucket'', vpcId = ''vpc-123''\<rparr>
           (Error ''deployment failed'') activate_hint)"
    unfolding n using h1 by simp
  from cli_boundary [of "demo_env True (Inr ''/home/u'') demo_stream_ok"
      "\<lparr>bucketName = ''my-bucket'', vpcId = ''vpc-123''\<rparr>" "start 0"]
  have 2: "fst (activate_RunE (demo_env True (Inr ''/home/u'') demo_stream_ok)
          \<lparr>bucketName = ''my-bucket'', vpcId = ''vpc-123''\<rparr> (start 0)) = None"
    unfolding n using h2 by simp
  from h1 1 h2 2 show ?thesis by (intro conjI)
qed

text \<open>
  Claim C10: in verbose mode, when the first event of the progress stream already carries
  an error, \<^verbatim>\<open>deployCoreInfrastructure\<close> returns that error and its trace holds the
  two calls only: no line is logged, since the event before is the zero event.
\<close>

theorem first_event_error_logs_nothing:
  assumes "logging_Verbose g"
    and "DetermineHomeDir g w = (Inr home, w1)"
    and "DeployApp (cdkClient opts) (filepath_Join g home cdkCoreDir) envVars w1
           = (Inr (ev # rest), w2)"
    and "Err ev = Some err"
  shows "deployCoreInfrastructure g opts envVars (start w)
           = (Some err,
              \<lparr>world = w2,
               trace = [CallDetermineHomeDir (Inr home),
                        CallDeployApp (filepath_Join g home cdkCoreDir) envVars
                          (Inr (ev # rest))]\<rparr>)"
  using assms
  by (simp add: deployCoreInfrastructure_def deployCoreInfrastructure_progress_def
        call_DetermineHomeDir_def call_DeployApp_def record_event_def start_def
        zero_ProgressEvent_def)

theorem first_event_error_logs_nothing_witness:
  "logging_Verbose (demo_env True (Inr ''/home/u'') demo_stream_ok)
   \<and> DetermineHomeDir (demo_env True (Inr ''/home/u'') demo_stream_ok) 0 = (Inr ''/home/u'', 1)
   \<and> Err \<lparr>Outputs = [''bootstrapping''], Err = Some (Error ''no credentials'')\<rparr>
       = Some (Error ''no credentials'')
   \<and> deployCoreInfrastructure (demo_env True (Inr ''/home/u'') demo_stream_ok)
        (demo_opts ''my-bucket'' [] demo_images
           (\<lparr>Outputs = [''bootstrapping''], Err = Some (Error ''no credentials'')\<rparr>
            # demo_stream_ok))
        [''AGC_BUCKET_NAME=my-bucket''] (start 0)
       = (Some (Error ''no credentials''),
          \<lparr>world = 2,
           trace = [CallDetermineHomeDir (Inr ''/home/u''),
                    CallDeployApp ''/home/u/.agc/cdk/apps/core'' [''AGC_BUCKET_NAME=my-bucket'']
                      (Inr (\<lparr>Outputs = [''bootstrapping''], Err = Some (Error ''no credentials'')\<rparr>
                            # demo_stream_ok))]\<rparr>)"
proof -
  have v: "logging_Verbose (demo_env True (Inr ''/home/u'') demo_stream_ok)"
    and h: "DetermineHomeDir (demo_env True (Inr ''/home/u'') demo_stream_ok) 0
              = (Inr ''/home/u'', 1)"
    and d: "DeployApp (cdkClient (demo_opts ''my-bucket'' [] demo_images
               (\<lparr>Outputs = [''bootstrapping''], Err = Some (Error ''no credentials'')\<rparr>
                # demo_stream_ok)))
             (filepath_Join (demo_env True (Inr ''/home/u'') demo_stream_ok) ''/home/u'' cdkCoreDir)
             [''AGC_BUCKET_NAME=my-bucket''] 1
            = (Inr (\<lparr>Outputs = [''bootstrapping''], Err = Some (Error ''no credentials'')\<rparr>
                    # demo_stream_ok), 2)"
    and e: "Err \<lparr>Outputs = [''bootstrapping''], Err = Some (Error ''no credentials'')\<rparr>
              = Some (Error ''no credentials'')"
    and j: "filepath_Join (demo_env True (Inr ''/home/u'') demo_stream_ok) ''/home/u'' cdkCoreDir
              = ''/home/u/.agc/cdk/apps/core''"
    by (simp_all add: demo_env_def demo_opts_def demo_cdk_def cdkCoreDir_def)
  from first_event_error_logs_nothing [OF v h d e] v h e show ?thesis
    unfolding j by (intro conjI)
qed

end
